theory Spec2Isabelle
  imports Complex_Main "HOL-Library.Log_Nat"
begin

section \<open>Posture server: data model\<close>

text \<open>
  A shallow embedding of \<^verbatim>\<open>src/server/server.js\<close>: the chair registry
  (\<^verbatim>\<open>registerChairId\<close>), the two classifiers (\<^verbatim>\<open>evaluatePosture\<close>,
  \<^verbatim>\<open>analyzePoseNetPosture\<close>) and the two ingestion routes
  (\<^verbatim>\<open>POST /chair\<close>, \<^verbatim>\<open>POST /posenet\<close>).

  Modelling decisions.
  \<^item> A JavaScript number is a binary64 value: a finite one is carried as the real number
    it denotes, beside the two infinities and \<^verbatim>\<open>NaN\<close>. Every arithmetic operation
    computes the exact result and rounds it to the nearest binary64 value, ties to even,
    overflowing to an infinity. The two zeros are one value: the source only adds,
    subtracts, multiplies, takes absolute values and compares, and none of these lets the
    sign of a zero reach a result of a comparison.
  \<^item> A numeric literal of the source, and a number in a JSON body, denotes the binary64
    value nearest to its decimal.
  \<^item> Posture labels are the strings the source returns.
  \<^item> An entry of the \<^verbatim>\<open>sensors\<close> array is \<^verbatim>\<open>null\<close>, an object whose
    \<^verbatim>\<open>value\<close> is a number or absent, or another JSON value (whose \<^verbatim>\<open>value\<close> property
    is \<^verbatim>\<open>undefined\<close>). A \<^verbatim>\<open>value\<close> that is not a number (a string, say, on which
    \<^verbatim>\<open>+\<close> concatenates) is outside the model.
  \<^item> A keypoint is an object with \<^verbatim>\<open>part\<close>, \<^verbatim>\<open>score\<close> and \<^verbatim>\<open>position\<close>.
  \<^item> The server clock (\<^verbatim>\<open>timestamp\<close>) and console logging are left out.
\<close>

subsection \<open>Binary64 numbers\<close>

datatype jsnum = Fin real | PInf | NInf | NaN

text \<open>
  For \<open>a > 0\<close>, the binary exponent of \<open>a\<close>: the \<open>e\<close> with \<open>2\<^sup>e \<le> a < 2\<^sup>e\<^sup>+\<^sup>1\<close>, from the
  number of binary digits (\<open>bitlen\<close>) of the integer part of \<open>a\<close>, or of \<open>1 / a\<close> when
  \<open>a < 1\<close>.
\<close>

definition exponent_of :: "real \<Rightarrow> int" where
  "exponent_of a =
     (if 1 \<le> a then bitlen \<lfloor>a\<rfloor> - 1 else - bitlen (\<lceil>1 / a\<rceil> - 1))"

text \<open>The nearest integer, a tie going to the even one.\<close>

definition round_half_even :: "real \<Rightarrow> int" where
  "round_half_even r =
     (let f = \<lfloor>r\<rfloor>; d = r - of_int f
      in if d < 1 / 2 then f else if 1 / 2 < d then f + 1 else if even f then f else f + 1)"

text \<open>
  Rounding a real to binary64: 53 significant bits, so a spacing of \<open>2\<^sup>e\<^sup>-\<^sup>5\<^sup>2\<close> at exponent
  \<open>e\<close>; exponents from \<open>-1022\<close> (below it the spacing stays \<open>2\<^sup>-\<^sup>1\<^sup>0\<^sup>7\<^sup>4\<close>, the subnormal
  numbers) to 1023; an infinity when the rounded magnitude reaches \<open>2\<^sup>1\<^sup>0\<^sup>2\<^sup>4\<close>.
\<close>

definition round64 :: "real \<Rightarrow> jsnum" where
  "round64 x =
     (if x = 0 then Fin 0
      else
        let a = \<bar>x\<bar>;
            e = max (exponent_of a) (- 1022);
            q = 2 powi (e - 52);
            r = of_int (round_half_even (a / q)) * q
        in if 2 powi 1024 \<le> r then (if 0 < x then PInf else NInf)
           else Fin (if 0 < x then r else - r))"

text \<open>A numeric literal: the binary64 value nearest to the decimal written.\<close>

definition lit :: "real \<Rightarrow> jsnum" where
  "lit x = round64 x"

fun js_neg :: "jsnum \<Rightarrow> jsnum" where
  "js_neg (Fin a) = Fin (- a)"
| "js_neg PInf = NInf"
| "js_neg NInf = PInf"
| "js_neg NaN = NaN"

fun js_add :: "jsnum \<Rightarrow> jsnum \<Rightarrow> jsnum" where
  "js_add NaN _ = NaN"
| "js_add _ NaN = NaN"
| "js_add (Fin a) (Fin b) = round64 (a + b)"
| "js_add PInf NInf = NaN"
| "js_add NInf PInf = NaN"
| "js_add PInf _ = PInf"
| "js_add _ PInf = PInf"
| "js_add NInf _ = NInf"
| "js_add _ NInf = NInf"

definition js_sub :: "jsnum \<Rightarrow> jsnum \<Rightarrow> jsnum" where
  "js_sub a b = js_add a (js_neg b)"

text \<open>The sign of a product with an infinity; zero times an infinity is \<^verbatim>\<open>NaN\<close>.\<close>

definition signed_inf :: "real \<Rightarrow> jsnum" where
  "signed_inf s = (if s = 0 then NaN else if 0 < s then PInf else NInf)"

fun js_mul :: "jsnum \<Rightarrow> jsnum \<Rightarrow> jsnum" where
  "js_mul NaN _ = NaN"
| "js_mul _ NaN = NaN"
| "js_mul (Fin a) (Fin b) = round64 (a * b)"
| "js_mul (Fin a) PInf = signed_inf a"
| "js_mul (Fin a) NInf = signed_inf (- a)"
| "js_mul PInf (Fin b) = signed_inf b"
| "js_mul NInf (Fin b) = signed_inf (- b)"
| "js_mul PInf PInf = PInf"
| "js_mul PInf NInf = NInf"
| "js_mul NInf PInf = NInf"
| "js_mul NInf NInf = PInf"

fun js_abs :: "jsnum \<Rightarrow> jsnum" where
  "js_abs (Fin a) = Fin \<bar>a\<bar>"
| "js_abs PInf = PInf"
| "js_abs NInf = PInf"
| "js_abs NaN = NaN"

text \<open>Every comparison with \<^verbatim>\<open>NaN\<close> is false.\<close>

fun js_lt :: "jsnum \<Rightarrow> jsnum \<Rightarrow> bool" where
  "js_lt NaN _ = False"
| "js_lt _ NaN = False"
| "js_lt (Fin a) (Fin b) = (a < b)"
| "js_lt NInf NInf = False"
| "js_lt NInf _ = True"
| "js_lt _ NInf = False"
| "js_lt PInf _ = False"
| "js_lt _ PInf = True"

definition js_gt :: "jsnum \<Rightarrow> jsnum \<Rightarrow> bool" where
  "js_gt a b = js_lt b a"

text \<open>
  \<^verbatim>\<open>ToNumber\<close> of an operand of \<^verbatim>\<open>+\<close> that is a number or \<^verbatim>\<open>undefined\<close> (\<open>None\<close>):
  \<^verbatim>\<open>undefined\<close> becomes \<^verbatim>\<open>NaN\<close>.
\<close>

fun toNumber :: "jsnum option \<Rightarrow> jsnum" where
  "toNumber None = NaN"
| "toNumber (Some v) = v"

text \<open>
  \<^verbatim>\<open>arr[i]\<close> on an array whose elements may be \<^verbatim>\<open>undefined\<close>: the element, or
  \<^verbatim>\<open>undefined\<close> out of range.
\<close>

definition at_index :: "'a option list \<Rightarrow> nat \<Rightarrow> 'a option" where
  "at_index xs i = (if i < length xs then xs ! i else None)"

subsection \<open>Request fields\<close>

text \<open>
  A field of a JSON body: absent (\<^verbatim>\<open>undefined\<close>), or one of the JSON values. Only the
  elements of an array are typed.
\<close>

datatype 'a field =
    Undefined
  | Null
  | Bool bool
  | Number jsnum
  | String string
  | Object
  | Array "'a list"

text \<open>Truthiness, as \<^verbatim>\<open>!v\<close> tests it.\<close>

fun truthy :: "'a field \<Rightarrow> bool" where
  "truthy Undefined = False"
| "truthy Null = False"
| "truthy (Bool b) = b"
| "truthy (Number n) = (n \<noteq> Fin 0 \<and> n \<noteq> NaN)"
| "truthy (String s) = (s \<noteq> [])"
| "truthy Object = True"
| "truthy (Array xs) = True"

fun isArray :: "'a field \<Rightarrow> bool" where
  "isArray (Array xs) = True"
| "isArray _ = False"

fun elements :: "'a field \<Rightarrow> 'a list" where
  "elements (Array xs) = xs"
| "elements _ = []"

subsection \<open>Sensor entries, keypoints, records, events\<close>

text \<open>
  An entry of the \<^verbatim>\<open>sensors\<close> array, by what \<^verbatim>\<open>s.value\<close> does on it: on \<^verbatim>\<open>null\<close>
  it throws a \<^verbatim>\<open>TypeError\<close>; on an object it is the number stored under \<^verbatim>\<open>value\<close>, or
  \<^verbatim>\<open>undefined\<close> when the object has none; on any other JSON value (a number, a string, a
  boolean, an array) it is \<^verbatim>\<open>undefined\<close>.
\<close>

datatype entry = Null_entry | Object_entry "jsnum option" | Other_entry

datatype error = TypeError

fun read_value :: "entry \<Rightarrow> error + jsnum option" where
  "read_value Null_entry = Inl TypeError"
| "read_value (Object_entry v) = Inr v"
| "read_value Other_entry = Inr None"

text \<open>\<^verbatim>\<open>sensorData.map(s => s.value)\<close>: the first entry that throws ends the call.\<close>

fun map_value :: "entry list \<Rightarrow> error + jsnum option list" where
  "map_value [] = Inr []"
| "map_value (s # ss) =
     (case read_value s of
        Inl e \<Rightarrow> Inl e
      | Inr v \<Rightarrow> (case map_value ss of Inl e \<Rightarrow> Inl e | Inr vs \<Rightarrow> Inr (v # vs)))"

record position =
  pos_x :: jsnum
  pos_y :: jsnum

record keypoint =
  part :: string
  score :: jsnum
  position :: position

text \<open>
  A \<^verbatim>\<open>PostureData\<close> document. A chair identifier is a string or \<^verbatim>\<open>undefined\<close>
  (\<open>None\<close>); \<^verbatim>\<open>sensors\<close> and \<^verbatim>\<open>poseData\<close> are present only on the route that
  sets them.
\<close>

record PostureData =
  chairId :: "string option"
  sensors :: "entry list option"
  poseData :: "keypoint list option"
  postureStatus :: string

datatype event =
    ChairData "string option" "entry list" string
  | PostureUpdate "string option" string

datatype body = Success string string | Error string

datatype response = Response nat body

record server_state =
  registeredChairIds :: "string option list"
  stored :: "PostureData list"
  emitted :: "event list"

definition initial_state :: server_state where
  "initial_state = \<lparr>registeredChairIds = [], stored = [], emitted = []\<rparr>"

section \<open>The chair registry\<close>

text \<open>
  \<^verbatim>\<open>if (!registeredChairIds.includes(id)) registeredChairIds.push(id)\<close>, on the list passed
  explicitly.
\<close>

definition registerChairId :: "'a \<Rightarrow> 'a list \<Rightarrow> 'a list" where
  "registerChairId i ids = (if i \<notin> set ids then ids @ [i] else ids)"

section \<open>The pressure classifier\<close>

text \<open>
  \<^verbatim>\<open>evaluatePosture(sensorData)\<close>. All the sums are computed before the first test, as in
  the source; the total is the \<^verbatim>\<open>reduce\<close> over every element, from left to right,
  starting from 0. The result is the label, or the \<^verbatim>\<open>TypeError\<close> of the \<^verbatim>\<open>map\<close>.
\<close>

definition evaluatePosture :: "entry list \<Rightarrow> error + string" where
  "evaluatePosture sensorData =
     (case map_value sensorData of
        Inl e \<Rightarrow> Inl e
      | Inr sensorValues \<Rightarrow>
          let leftSide = js_add (toNumber (at_index sensorValues 0)) (toNumber (at_index sensorValues 2));
              rightSide = js_add (toNumber (at_index sensorValues 1)) (toNumber (at_index sensorValues 3));
              difference = js_abs (js_sub leftSide rightSide);
              totalWeight = foldl (\<lambda>sum val. js_add sum (toNumber val)) (lit 0) sensorValues;
              backWeight = js_add (toNumber (at_index sensorValues 0)) (toNumber (at_index sensorValues 1));
              frontWeight = js_add (toNumber (at_index sensorValues 2)) (toNumber (at_index sensorValues 3))
          in if js_lt totalWeight (lit 200) then Inr ''not_sitting''
             else if js_gt frontWeight (js_mul backWeight (lit 1.5)) then Inr ''lean_forwarding''
             else if js_gt difference (js_mul totalWeight (lit 0.3)) then Inr ''poor''
             else Inr ''good'')"

text \<open>A reading of four numbers, as the array of objects the route receives.\<close>

definition reading :: "jsnum \<Rightarrow> jsnum \<Rightarrow> jsnum \<Rightarrow> jsnum \<Rightarrow> entry list" where
  "reading a b c d =
     [Object_entry (Some a), Object_entry (Some b), Object_entry (Some c), Object_entry (Some d)]"

text \<open>
  The \<^verbatim>\<open>reduce\<close> of a reading of four numbers: \<open>(((0 + a) + b) + c) + d\<close>, each sum
  rounded.
\<close>

definition total_of :: "jsnum \<Rightarrow> jsnum \<Rightarrow> jsnum \<Rightarrow> jsnum \<Rightarrow> jsnum" where
  "total_of a b c d = js_add (js_add (js_add (js_add (Fin 0) a) b) c) d"

section \<open>The keypoint classifier\<close>

text \<open>\<^verbatim>\<open>keypoints.find(kp => kp.part === name)\<close>: the first match, or \<^verbatim>\<open>undefined\<close>.\<close>

definition find_part :: "string \<Rightarrow> keypoint list \<Rightarrow> keypoint option" where
  "find_part name keypoints = find (\<lambda>kp. part kp = name) keypoints"

definition analyzePoseNetPosture :: "keypoint list \<Rightarrow> string" where
  "analyzePoseNetPosture keypoints =
     (let nose = find_part ''nose'' keypoints;
          leftShoulder = find_part ''leftShoulder'' keypoints;
          rightShoulder = find_part ''rightShoulder'' keypoints;
          leftEar = find_part ''leftEar'' keypoints;
          rightEar = find_part ''rightEar'' keypoints
      in case (nose, leftShoulder, rightShoulder) of
           (Some n, Some ls, Some rs) \<Rightarrow>
             if js_lt (score n) (lit 0.3) \<or> js_lt (score ls) (lit 0.3) \<or> js_lt (score rs) (lit 0.3)
             then ''not_sitting''
             else
               let shoulderDiff = js_abs (js_sub (pos_y (position ls)) (pos_y (position rs)));
                   shoulderDistance = js_abs (js_sub (pos_x (position ls)) (pos_x (position rs)))
               in if js_gt shoulderDiff (js_mul shoulderDistance (lit 0.2)) then ''poor''
                  else (case (leftEar, rightEar) of
                          (Some le, Some re) \<Rightarrow>
                            if js_gt (score le) (lit 0.5) \<and> js_gt (score re) (lit 0.5) then
                              let earDiff = js_abs (js_sub (pos_y (position le)) (pos_y (position re)));
                                  earDistance = js_abs (js_sub (pos_x (position le)) (pos_x (position re)))
                              in if js_gt earDiff (js_mul earDistance (lit 0.3)) then ''poor''
                                 else ''good''
                            else ''good''
                        | _ \<Rightarrow> ''good'')
         | _ \<Rightarrow> ''not_sitting'')"

text \<open>
  Concrete keypoint sets. A keypoint written with decimal numbers, as in a JSON body: each
  number is the binary64 value nearest to the decimal.
\<close>

definition kp :: "string \<Rightarrow> real \<Rightarrow> real \<Rightarrow> real \<Rightarrow> keypoint" where
  "kp p s x y = \<lparr>part = p, score = lit s, position = \<lparr>pos_x = lit x, pos_y = lit y\<rparr>\<rparr>"

text \<open>The two keypoint sets of \<^verbatim>\<open>src/Tests/server.test.js\<close>.\<close>

definition aligned_pose :: "keypoint list" where
  "aligned_pose =
     [kp ''nose'' 0.9 0 0, kp ''leftShoulder'' 0.9 100 200, kp ''rightShoulder'' 0.9 200 200,
      kp ''leftEar'' 0.9 90 100, kp ''rightEar'' 0.9 210 100]"


text \<open>Both shoulders at the same \<open>x\<close>, one 30 lower than the other, ears level.\<close>

definition stacked_pose :: "keypoint list" where
  "stacked_pose =
     [kp ''nose'' 0.9 0 0, kp ''leftShoulder'' 0.9 100 200, kp ''rightShoulder'' 0.9 100 230,
      kp ''leftEar'' 0.9 90 100, kp ''rightEar'' 0.9 210 100]"

text \<open>Both shoulders at the same point, the ears 100 apart in height over a width of 120.\<close>

definition coinciding_tilted_pose :: "keypoint list" where
  "coinciding_tilted_pose =
     [kp ''nose'' 0.9 0 0, kp ''leftShoulder'' 0.9 100 200, kp ''rightShoulder'' 0.9 100 200,
      kp ''leftEar'' 0.9 90 100, kp ''rightEar'' 0.9 210 200]"

text \<open>
  Level shoulders, and ears at \<open>(0, 14.5)\<close> and \<open>(48, 0.1)\<close>: in exact arithmetic the ear
  difference, a little under 14.4, does not exceed \<open>48 * 0.3\<close>.
\<close>

definition borderline_ears_pose :: "keypoint list" where
  "borderline_ears_pose =
     [kp ''nose'' 0.9 0 0, kp ''leftShoulder'' 0.9 100 200, kp ''rightShoulder'' 0.9 200 200,
      kp ''leftEar'' 0.9 0 14.5, kp ''rightEar'' 0.9 48 0.1]"

section \<open>The ingestion routes\<close>

text \<open>
  Each route takes the outcome of building and saving the \<^verbatim>\<open>PostureData\<close> document as a
  parameter (\<open>True\<close>: the document was stored; \<open>False\<close>: the constructor or
  \<^verbatim>\<open>postureRecord.save()\<close> threw), the request body and the state, and returns the
  response and the new state. An exception inside the \<^verbatim>\<open>try\<close>, from the classifier or from
  the save, is answered 500 by the \<^verbatim>\<open>catch\<close>, after the registration and before any
  broadcast.
\<close>

record chair_body =
  body_id :: "string option"
  body_sensors :: "entry field"

record posenet_body =
  body_chairId :: "string option"
  body_keypoints :: "keypoint field"

text \<open>\<^verbatim>\<open>req.body.id || 'unknown'\<close>: an absent or empty identifier is falsy.\<close>

fun or_unknown :: "string option \<Rightarrow> string" where
  "or_unknown None = ''unknown''"
| "or_unknown (Some s) = (if s = [] then ''unknown'' else s)"

definition post_chair :: "bool \<Rightarrow> chair_body \<Rightarrow> server_state \<Rightarrow> response \<times> server_state" where
  "post_chair save_ok req st =
     (let sensorData = body_sensors req;
          cid = Some (or_unknown (body_id req));
          st1 = st\<lparr>registeredChairIds := registerChairId cid (registeredChairIds st)\<rparr>
      in if \<not> truthy sensorData \<or> \<not> isArray sensorData
         then (Response 400 (Error ''Invalid sensor data format''), st1)
         else
           case evaluatePosture (elements sensorData) of
             Inl e \<Rightarrow> (Response 500 (Error ''Server error''), st1)
           | Inr status \<Rightarrow>
               let postureRecord = \<lparr>chairId = cid, sensors = Some (elements sensorData),
                                     poseData = None, postureStatus = status\<rparr>
               in if \<not> save_ok then (Response 500 (Error ''Server error''), st1)
                  else (Response 200 (Success ''Data received successfully'' status),
                        st1\<lparr>stored := stored st1 @ [postureRecord],
                            emitted := emitted st1 @ [ChairData cid (elements sensorData) status]\<rparr>))"

definition post_posenet :: "bool \<Rightarrow> posenet_body \<Rightarrow> server_state \<Rightarrow> response \<times> server_state" where
  "post_posenet save_ok req st =
     (let cid = body_chairId req;
          keypoints = body_keypoints req;
          st1 = st\<lparr>registeredChairIds := registerChairId cid (registeredChairIds st)\<rparr>
      in if \<not> truthy keypoints \<or> \<not> isArray keypoints
         then (Response 400 (Error ''Invalid keypoints data''), st1)
         else
           let posePosture = analyzePoseNetPosture (elements keypoints);
               postureRecord = \<lparr>chairId = cid, sensors = None,
                                 poseData = Some (elements keypoints), postureStatus = posePosture\<rparr>
           in if \<not> save_ok then (Response 500 (Error ''Server error''), st1)
              else (Response 200 (Success ''PoseNet data received successfully'' posePosture),
                    st1\<lparr>stored := stored st1 @ [postureRecord],
                        emitted := emitted st1 @ [PostureUpdate cid posePosture]\<rparr>))"

subsection \<open>Runs of the server\<close>

text \<open>
  The requests the server answers. The two \<^verbatim>\<open>GET\<close> routes read and do not change the
  state; a run starts from the empty registry of a fresh process.
\<close>

datatype request =
    GetHealth
  | GetChairIds
  | PostChair bool chair_body
  | PostPosenet bool posenet_body

fun handle :: "request \<Rightarrow> server_state \<Rightarrow> server_state" where
  "handle GetHealth st = st"
| "handle GetChairIds st = st"
| "handle (PostChair ok req) st = snd (post_chair ok req st)"
| "handle (PostPosenet ok req) st = snd (post_posenet ok req st)"

definition run :: "request list \<Rightarrow> server_state" where
  "run reqs = foldl (\<lambda>st r. handle r st) initial_state reqs"

subsection \<open>Concrete requests\<close>

text \<open>The body \<^verbatim>\<open>{ id: 'test-chair-no-sensors' }\<close> of the test suite.\<close>

definition no_sensors_request :: chair_body where
  "no_sensors_request = \<lparr>body_id = Some ''test-chair-no-sensors'', body_sensors = Undefined\<rparr>"



text \<open>A \<^verbatim>\<open>/posenet\<close> body with keypoints and no \<^verbatim>\<open>chairId\<close>.\<close>

definition anonymous_pose_request :: posenet_body where
  "anonymous_pose_request = \<lparr>body_chairId = None, body_keypoints = Array aligned_pose\<rparr>"

section \<open>Binary64 rounding: properties\<close>

text \<open>
  The rounding is what the format prescribes: the exponent found is the binary exponent of
  the argument, a real within half a spacing of a 53-bit value rounds to it, a tie goes to
  the even significand, and integers below \<open>2\<^sup>5\<^sup>3\<close> are exact.
\<close>

lemma bitlen_powi_bounds:
  assumes "0 < n"
  shows "(2::real) powi (bitlen n - 1) \<le> of_int n" "of_int n < (2::real) powi (bitlen n)"
proof -
  from bitlen_bounds [OF assms] have a: "2 ^ nat (bitlen n - 1) \<le> n" and b: "n < 2 ^ nat (bitlen n)"
    by auto
  have p: "1 \<le> bitlen n" using assms by (auto simp: bitlen_alt_def)
  from a have "(of_int (2 ^ nat (bitlen n - 1)) :: real) \<le> of_int n"
    by (rule of_int_le_iff [THEN iffD2])
  then show "(2::real) powi (bitlen n - 1) \<le> of_int n"
    using p by (simp add: power_int_def)
  from b have "(of_int n :: real) < of_int (2 ^ nat (bitlen n))"
    by (rule of_int_less_iff [THEN iffD2])
  then show "of_int n < (2::real) powi (bitlen n)"
    using p by (simp add: power_int_def)
qed

lemma exponent_of_bounds:
  assumes "0 < a"
  shows "2 powi (exponent_of a) \<le> a \<and> a < 2 powi (exponent_of a + 1)"
proof (cases "1 \<le> a")
  case True
  then have n: "0 < \<lfloor>a\<rfloor>" by linarith
  from bitlen_powi_bounds [OF n] have "2 powi (bitlen \<lfloor>a\<rfloor> - 1) \<le> real_of_int \<lfloor>a\<rfloor>"
    and u: "real_of_int \<lfloor>a\<rfloor> < 2 powi (bitlen \<lfloor>a\<rfloor>)" by auto
  then have lo: "2 powi (bitlen \<lfloor>a\<rfloor> - 1) \<le> a" by linarith
  have "bitlen \<lfloor>a\<rfloor> \<ge> 0" by (rule bitlen_nonneg)
  then have "(2::real) powi (bitlen \<lfloor>a\<rfloor>) = of_int (2 ^ nat (bitlen \<lfloor>a\<rfloor>))"
    by (simp add: power_int_def)
  with u have "\<lfloor>a\<rfloor> < 2 ^ nat (bitlen \<lfloor>a\<rfloor>)"
    by (metis of_int_less_iff)
  then have "\<lfloor>a\<rfloor> + 1 \<le> 2 ^ nat (bitlen \<lfloor>a\<rfloor>)" by simp
  then have "real_of_int (\<lfloor>a\<rfloor> + 1) \<le> real_of_int (2 ^ nat (bitlen \<lfloor>a\<rfloor>))"
    by (rule of_int_le_iff [THEN iffD2])
  then have "a < 2 powi (bitlen \<lfloor>a\<rfloor>)"
    using \<open>(2::real) powi (bitlen \<lfloor>a\<rfloor>) = of_int (2 ^ nat (bitlen \<lfloor>a\<rfloor>))\<close> by linarith
  with lo True show ?thesis by (simp add: exponent_of_def)
next
  case False
  define y where "y = 1 / a"
  define k where "k = \<lceil>y\<rceil> - 1"
  from False assms have y1: "1 < y" by (simp add: y_def)
  then have k: "0 < k" unfolding k_def by linarith
  have yk: "real_of_int k < y" "y \<le> real_of_int k + 1" unfolding k_def by linarith+
  from bitlen_powi_bounds [OF k] have lo: "2 powi (bitlen k - 1) \<le> real_of_int k"
    and u: "real_of_int k < 2 powi (bitlen k)" by auto
  have "bitlen k \<ge> 0" by (rule bitlen_nonneg)
  then have e: "(2::real) powi (bitlen k) = of_int (2 ^ nat (bitlen k))"
    by (simp add: power_int_def)
  with u have "k < 2 ^ nat (bitlen k)" by (metis of_int_less_iff)
  then have "k + 1 \<le> 2 ^ nat (bitlen k)" by simp
  then have "real_of_int (k + 1) \<le> real_of_int (2 ^ nat (bitlen k))"
    by (rule of_int_le_iff [THEN iffD2])
  with e yk have yu: "y \<le> 2 powi (bitlen k)" by simp
  from lo yk have yl: "2 powi (bitlen k - 1) < y" by linarith
  have a: "a = 1 / y" using assms by (simp add: y_def)
  have p1: "(0::real) < 2 powi (bitlen k)" and p2: "(0::real) < 2 powi (bitlen k - 1)" by simp_all
  from yu p1 y1 have "1 / (2 powi (bitlen k)) \<le> 1 / y"
    by (simp add: frac_le)
  then have r1: "2 powi (- bitlen k) \<le> a" by (simp add: a power_int_minus_divide)
  from yl p2 have "1 / y < 1 / (2 powi (bitlen k - 1))"
    by (simp add: frac_less2)
  then have r2: "a < 2 powi (- bitlen k + 1)"
    using power_int_minus_divide [of "2::real" "bitlen k - 1"] by (simp add: a)
  from r1 r2 False show ?thesis by (simp add: exponent_of_def k_def y_def)
qed

lemma exponent_of_unique:
  assumes "2 powi E \<le> a" "a < 2 powi (E + 1)"
  shows "exponent_of a = E"
proof -
  have "0 < a" using assms(1) zero_less_power_int [of "2::real" E] by linarith
  from exponent_of_bounds [OF this]
  have b: "2 powi (exponent_of a) \<le> a" "a < 2 powi (exponent_of a + 1)" by auto
  have "\<not> exponent_of a + 1 \<le> E"
  proof
    assume "exponent_of a + 1 \<le> E"
    then have "(2::real) powi (exponent_of a + 1) \<le> 2 powi E"
      by (intro power_int_increasing) auto
    with assms(1) b(2) show False by linarith
  qed
  moreover have "\<not> E + 1 \<le> exponent_of a"
  proof
    assume "E + 1 \<le> exponent_of a"
    then have "(2::real) powi (E + 1) \<le> 2 powi (exponent_of a)"
      by (intro power_int_increasing) auto
    with assms(2) b(1) show False by linarith
  qed
  ultimately show ?thesis by linarith
qed

lemma round_half_even_near:
  assumes "\<bar>r - of_int m\<bar> < 1 / 2 \<or> (\<bar>r - of_int m\<bar> = 1 / 2 \<and> even m)"
  shows "round_half_even r = m"
proof (cases "of_int m \<le> r")
  case True
  with assms have "\<lfloor>r\<rfloor> = m" by (intro floor_unique) auto
  with True assms show ?thesis by (auto simp: round_half_even_def Let_def)
next
  case False
  with assms have f: "\<lfloor>r\<rfloor> = m - 1" by (intro floor_unique) auto
  with False assms show ?thesis by (auto simp: round_half_even_def Let_def)
qed

lemma round64_nearest:
  assumes lo: "2 powi (e + 52) \<le> x" and hi: "x < 2 powi (e + 53)"
    and e1: "- 1074 \<le> e" and e2: "e \<le> 970"
    and near: "\<bar>x / 2 powi e - of_int m\<bar> < 1 / 2
               \<or> (\<bar>x / 2 powi e - of_int m\<bar> = 1 / 2 \<and> even m)"
  shows "round64 x = Fin (of_int m * 2 powi e)"
proof -
  have pos: "0 < x" using lo zero_less_power_int [of "2::real" "e + 52"] by linarith
  have "exponent_of x = e + 52"
    using lo hi by (intro exponent_of_unique) (simp_all add: add.commute add.left_commute)
  then have ex: "max (exponent_of x) (- 1022) = e + 52" using e1 by simp
  have r: "round_half_even (x / 2 powi e) = m" using near by (rule round_half_even_near)
  have pe: "(0::real) < 2 powi e" by simp
  have "x < 2 powi e * 2 powi 53" using hi by (simp add: power_int_add)
  then have "x / 2 powi e < 2 powi 53" using pe by (simp add: field_simps)
  then have "x / 2 powi e < 2 ^ 53" by simp
  with near have "real_of_int m < 2 ^ 53 + 1" by linarith
  then have "real_of_int m < real_of_int (2 ^ 53 + 1)" by simp
  then have "m < 2 ^ 53 + 1" by (simp only: of_int_less_iff)
  then have "m \<le> 2 ^ 53" by simp
  then have "real_of_int m \<le> real_of_int (2 ^ 53)" by (simp only: of_int_le_iff)
  then have "real_of_int m \<le> 2 powi 53" by simp
  then have "real_of_int m * 2 powi e \<le> 2 powi 53 * 2 powi e"
    using pe by (intro mult_right_mono) simp_all
  also have "\<dots> = 2 powi (e + 53)" by (simp add: power_int_add)
  also have "\<dots> \<le> 2 powi 1023" using e2 by (intro power_int_increasing) simp_all
  also have "\<dots> < (2::real) powi 1024" by (intro power_int_strict_increasing) simp_all
  finally have no: "\<not> (2::real) powi 1024 \<le> real_of_int m * 2 powi e" by simp
  show ?thesis
    using pos no by (simp add: round64_def Let_def ex r del: power_int_numeral)
qed

lemma round64_certificate:
  assumes "2 powi (e + 52) \<le> x" and "x < 2 powi (e + 53)"
    and "- 1074 \<le> e" and "e \<le> 970"
    and "\<bar>x / 2 powi e - of_int m\<bar> < 1 / 2
         \<or> (\<bar>x / 2 powi e - of_int m\<bar> = 1 / 2 \<and> even m)"
    and "v = of_int m * 2 powi e"
  shows "round64 x = Fin v"
  using round64_nearest [OF assms(1-5)] assms(6) by simp

lemma round64_zero [simp]: "round64 0 = Fin 0"
  by (simp add: round64_def)

lemma round64_minus: "round64 (- x) = js_neg (round64 x)"
  by (simp add: round64_def Let_def)

lemma round64_of_int:
  assumes "0 < n" "n < 2 ^ 53"
  shows "round64 (of_int n) = Fin (of_int n)"
proof -
  define x :: real where "x = of_int n"
  define E where "E = exponent_of x"
  have x1: "1 \<le> x" using assms(1) by (simp add: x_def)
  have xu: "x < 2 ^ 53"
  proof -
    have "real_of_int n < real_of_int (2 ^ 53)" using assms(2) by (simp only: of_int_less_iff)
    then show ?thesis by (simp add: x_def)
  qed
  from exponent_of_bounds [of x] x1
  have b: "2 powi E \<le> x" "x < 2 powi (E + 1)" by (simp_all add: E_def)
  have E0: "0 \<le> E"
  proof (rule ccontr)
    assume "\<not> 0 \<le> E"
    then have "E + 1 \<le> 0" by simp
    then have "(2::real) powi (E + 1) \<le> 2 powi 0" by (intro power_int_increasing) simp_all
    with b(2) x1 show False by simp
  qed
  have E52: "E \<le> 52"
  proof (rule ccontr)
    assume "\<not> E \<le> 52"
    then have "53 \<le> E" by simp
    then have "(2::real) powi 53 \<le> 2 powi E" by (intro power_int_increasing) simp_all
    with b(1) xu show False by simp
  qed
  define m where "m = n * 2 ^ nat (52 - E)"
  have q: "(2::real) powi (E - 52) = 1 / 2 ^ nat (52 - E)"
    using E52 power_int_minus_divide [of "2::real" "52 - E"] by (simp add: power_int_def)
  have d: "x / 2 powi (E - 52) = of_int m"
    by (simp add: q m_def x_def)
  have "round64 x = Fin (of_int m * 2 powi (E - 52))"
  proof (rule round64_nearest)
    show "2 powi (E - 52 + 52) \<le> x" using b(1) by simp
    show "x < 2 powi (E - 52 + 53)" using b(2) by (simp add: add.commute)
    show "- 1074 \<le> E - 52" using E0 by simp
    show "E - 52 \<le> 970" using E52 by simp
    show "\<bar>x / 2 powi (E - 52) - of_int m\<bar> < 1 / 2
          \<or> (\<bar>x / 2 powi (E - 52) - of_int m\<bar> = 1 / 2 \<and> even m)"
      by (simp add: d)
  qed
  moreover have "of_int m * 2 powi (E - 52) = x"
    by (simp add: q m_def x_def)
  ultimately show ?thesis by (simp add: x_def)
qed

lemma round64_numeral [simp]:
  "numeral k < (2::int) ^ 53 \<Longrightarrow> round64 (numeral k) = Fin (numeral k)"
  using round64_of_int [of "numeral k"] by simp


text \<open>A magnitude of \<open>2\<^sup>1\<^sup>0\<^sup>2\<^sup>4\<close> or more overflows: \<^verbatim>\<open>1e400\<close> in a JSON body is \<^verbatim>\<open>Infinity\<close>.\<close>

lemma round_half_even_ge_floor: "\<lfloor>r\<rfloor> \<le> round_half_even r"
  by (simp add: round_half_even_def Let_def)

lemma round64_overflow:
  assumes "2 powi 1024 \<le> x"
  shows "round64 x = PInf"
proof -
  have pos: "0 < x" using assms zero_less_power_int [of "2::real" 1024] by linarith
  define E where "E = exponent_of x"
  from exponent_of_bounds [OF pos]
  have b: "2 powi E \<le> x" "x < 2 powi (E + 1)" by (simp_all add: E_def)
  have E: "1024 \<le> E"
  proof (rule ccontr)
    assume "\<not> 1024 \<le> E"
    then have "E + 1 \<le> 1024" by simp
    then have "(2::real) powi (E + 1) \<le> 2 powi 1024" by (intro power_int_increasing) simp_all
    with b(2) assms show False by linarith
  qed
  define q :: real where "q = 2 powi (E - 52)"
  have q: "0 < q" by (simp add: q_def)
  have "(2::real) powi (52 + (E - 52)) = 2 powi 52 * 2 powi (E - 52)"
    by (rule power_int_add) simp
  then have "2 powi E = 2 powi 52 * q" by (simp add: q_def del: power_int_numeral)
  with b(1) have "2 powi 52 * q \<le> x" by simp
  then have "2 powi 52 \<le> x / q" using q by (simp add: field_simps)
  then have "real_of_int (2 ^ 52) \<le> x / q" by simp
  then have "2 ^ 52 \<le> \<lfloor>x / q\<rfloor>" by (simp only: le_floor_iff)
  with round_half_even_ge_floor [of "x / q"] have "2 ^ 52 \<le> round_half_even (x / q)" by linarith
  then have "real_of_int (2 ^ 52) \<le> real_of_int (round_half_even (x / q))"
    by (simp only: of_int_le_iff)
  then have "2 powi 52 \<le> real_of_int (round_half_even (x / q))" by simp
  then have "2 powi 52 * q \<le> real_of_int (round_half_even (x / q)) * q"
    using q by (intro mult_right_mono) simp_all
  moreover have "(2::real) powi 1024 \<le> 2 powi E" using E by (intro power_int_increasing) simp_all
  ultimately have "2 powi 1024 \<le> real_of_int (round_half_even (x / q)) * q"
    using \<open>2 powi E = 2 powi 52 * q\<close> by linarith
  moreover have "max (exponent_of x) (- 1022) = E" using E by (simp add: E_def)
  ultimately show ?thesis
    using pos by (simp add: round64_def Let_def q_def del: power_int_numeral)
qed

lemma lit_overflow: "lit (10 ^ 400) = PInf"
  by (simp add: lit_def round64_overflow)

text \<open>
  The roundings met in evaluating the classifiers on the concrete inputs below, each
  certified by its significand and exponent.
\<close>

lemma round64_c0: "round64 (2220446049250313 / 2500000000000000000000000000000) = Fin (1 / 1125899906842624)"
  by (rule round64_certificate [where e = "- 103" and m = 9007199254740992]) simp_all

lemma round64_c1: "round64 (1 / 1125899906842624) = Fin (1 / 1125899906842624)"
  by (rule round64_certificate [where e = "- 102" and m = 4503599627370496]) simp_all

lemma round64_c2: "round64 (1 / 10) = Fin (3602879701896397 / 36028797018963968)"
  by (rule round64_certificate [where e = "- 56" and m = 7205759403792794]) simp_all

lemma round64_c3: "round64 (1 / 5) = Fin (3602879701896397 / 18014398509481984)"
  by (rule round64_certificate [where e = "- 55" and m = 7205759403792794]) simp_all

lemma round64_c4: "round64 (3 / 10) = Fin (5404319552844595 / 18014398509481984)"
  by (rule round64_certificate [where e = "- 54" and m = 5404319552844595]) simp_all

lemma round64_c5: "round64 (1 / 2) = Fin (1 / 2)"
  by (rule round64_certificate [where e = "- 53" and m = 4503599627370496]) simp_all

lemma round64_c6: "round64 (9 / 10) = Fin (8106479329266893 / 9007199254740992)"
  by (rule round64_certificate [where e = "- 53" and m = 8106479329266893]) simp_all

lemma round64_c7: "round64 (3 / 2) = Fin (3 / 2)"
  by (rule round64_certificate [where e = "- 52" and m = 6755399441055744]) simp_all

lemma round64_c8: "round64 (16212958658533785 / 1125899906842624) = Fin (2026619832316723 / 140737488355328)"
  by (rule round64_certificate [where e = "- 49" and m = 8106479329266892]) simp_all

lemma round64_c9: "round64 (518814677073081139 / 36028797018963968) = Fin (8106479329266893 / 562949953421312)"
  by (rule round64_certificate [where e = "- 49" and m = 8106479329266893]) simp_all

lemma round64_c10: "round64 (29 / 2) = Fin (29 / 2)"
  by (rule round64_certificate [where e = "- 49" and m = 8162774324609024]) simp_all

lemma round64_c11: "round64 (90071992547409925 / 4503599627370496) = Fin (20)"
  by (rule round64_certificate [where e = "- 48" and m = 5629499534213120]) simp_all

lemma round64_c12: "round64 (135107988821114875 / 4503599627370496) = Fin (30)"
  by (rule round64_certificate [where e = "- 48" and m = 8444249301319680]) simp_all

lemma round64_c13: "round64 (81064793292668925 / 2251799813685248) = Fin (36)"
  by (rule round64_certificate [where e = "- 47" and m = 5066549580791808]) simp_all

lemma round64_c14: "round64 (4999999999999999 / 100000000000000) = Fin (7036874417766399 / 140737488355328)"
  by (rule round64_certificate [where e = "- 47" and m = 7036874417766399]) simp_all

lemma round64_c15: "round64 (7036874417766399 / 140737488355328) = Fin (7036874417766399 / 140737488355328)"
  by (rule round64_certificate [where e = "- 47" and m = 7036874417766399]) simp_all

lemma round64_c16: "round64 (135107988821114875 / 2251799813685248) = Fin (60)"
  by (rule round64_certificate [where e = "- 47" and m = 8444249301319680]) simp_all

lemma round64_c17: "round64 (297237575406452725 / 4503599627370496) = Fin (66)"
  by (rule round64_certificate [where e = "- 46" and m = 4644337115725824]) simp_all

lemma round64_c18: "round64 (7062624772700134203494931935115 / 79228162514264337593543950336) = Fin (6272870909551761 / 70368744177664)"
  by (rule round64_certificate [where e = "- 46" and m = 6272870909551761]) simp_all

lemma round64_c19: "round64 (3136435454775881 / 35184372088832) = Fin (3136435454775881 / 35184372088832)"
  by (rule round64_certificate [where e = "- 46" and m = 6272870909551762]) simp_all

lemma round64_c20: "round64 (405323966463344625 / 4503599627370496) = Fin (90)"
  by (rule round64_certificate [where e = "- 46" and m = 6333186975989760]) simp_all

lemma round64_c21: "round64 (27021597764222975 / 281474976710656) = Fin (96)"
  by (rule round64_certificate [where e = "- 46" and m = 6755399441055744]) simp_all

lemma round64_c22: "round64 (14073748835532801 / 140737488355328) = Fin (100)"
  by (rule round64_certificate [where e = "- 46" and m = 7036874417766400]) simp_all

lemma round64_c23: "round64 (135107988821114875 / 1125899906842624) = Fin (120)"
  by (rule round64_certificate [where e = "- 46" and m = 8444249301319680]) simp_all

lemma round64_c24: "round64 (675539944105574375 / 4503599627370496) = Fin (150)"
  by (rule round64_certificate [where e = "- 45" and m = 5277655813324800]) simp_all

lemma round64_c25: "round64 (6795610152014409 / 35184372088832) = Fin (6795610152014409 / 35184372088832)"
  by (rule round64_certificate [where e = "- 45" and m = 6795610152014409]) simp_all

lemma round64_c26: "round64 (9657142857142857 / 50000000000000) = Fin (6795610152014409 / 35184372088832)"
  by (rule round64_certificate [where e = "- 45" and m = 6795610152014409]) simp_all

lemma round64_c27: "round64 (28147497671065599 / 140737488355328) = Fin (200)"
  by (rule round64_certificate [where e = "- 45" and m = 7036874417766400]) simp_all

lemma round64_c28: "round64 (1306848106156617 / 4398046511104) = Fin (1306848106156617 / 4398046511104)"
  by (rule round64_certificate [where e = "- 44" and m = 5227392424626468]) simp_all

lemma round64_c29: "round64 (10454784849252937 / 35184372088832) = Fin (1306848106156617 / 4398046511104)"
  by (rule round64_certificate [where e = "- 44" and m = 5227392424626468]) simp_all

lemma round64_c30: "round64 (337769972052787201 / 1125899906842624) = Fin (300)"
  by (rule round64_certificate [where e = "- 44" and m = 5277655813324800]) simp_all

lemma round64_c31: "round64 (3920544318469851 / 8796093022208) = Fin (3920544318469851 / 8796093022208)"
  by (rule round64_certificate [where e = "- 44" and m = 7841088636939702]) simp_all

lemma round64_c32: "round64 (562949953421311999 / 1125899906842624) = Fin (500)"
  by (rule round64_certificate [where e = "- 44" and m = 8796093022208000]) simp_all

lemma round64_c33: "round64 (562949953421312001 / 1125899906842624) = Fin (500)"
  by (rule round64_certificate [where e = "- 44" and m = 8796093022208000]) simp_all

lemmas round64_certs =
  round64_c0 round64_c1 round64_c2 round64_c3 round64_c4 round64_c5
  round64_c6 round64_c7 round64_c8 round64_c9 round64_c10 round64_c11
  round64_c12 round64_c13 round64_c14 round64_c15 round64_c16 round64_c17
  round64_c18 round64_c19 round64_c20 round64_c21 round64_c22 round64_c23
  round64_c24 round64_c25 round64_c26 round64_c27 round64_c28 round64_c29
  round64_c30 round64_c31 round64_c32 round64_c33

lemma lit_zero: "lit 0 = Fin 0"
  by (simp add: lit_def)

lemma lit_200: "lit 200 = Fin 200"
  by (simp add: lit_def)

lemma lit_1_5: "lit (3 / 2) = Fin (3 / 2)"
  by (simp add: lit_def round64_certs)

lemma lit_0_5: "lit (1 / 2) = Fin (1 / 2)"
  by (simp add: lit_def round64_certs)

lemma lit_0_3: "lit (3 / 10) = Fin (5404319552844595 / 18014398509481984)"
  by (simp add: lit_def round64_certs)

lemma lit_0_2: "lit (1 / 5) = Fin (3602879701896397 / 18014398509481984)"
  by (simp add: lit_def round64_certs)

lemma js_lt_NaN [simp]: "js_lt x NaN = False"
  by (cases x) simp_all

lemma js_add_NaN [simp]: "js_add x NaN = NaN"
  by (cases x) simp_all

lemmas js_eval =
  lit_def js_sub_def js_gt_def round64_minus round64_certs

section \<open>Pressure classifier: properties\<close>

lemma evaluatePosture_reading:
  "evaluatePosture (reading a b c d) =
     Inr (if js_lt (total_of a b c d) (Fin 200) then ''not_sitting''
          else if js_gt (js_add c d) (js_mul (js_add a b) (Fin 1.5)) then ''lean_forwarding''
          else if js_gt (js_abs (js_sub (js_add a c) (js_add b d)))
                        (js_mul (total_of a b c d) (lit 0.3)) then ''poor''
          else ''good'')"
  by (simp add: evaluatePosture_def reading_def at_index_def total_of_def lit_zero lit_200 lit_1_5)

text \<open>
  C3, as stated: a reading whose sum is below 200 would be classified \<^verbatim>\<open>not_sitting\<close>.
  The source compares the sum it has computed, each addition rounded: for the reading
  150, 49.99999999999999, 0, 0 the sum of the four numbers is below 200 by \<open>2\<^sup>-\<^sup>4\<^sup>7\<close>, the
  computed total is 200, and the label is \<^verbatim>\<open>poor\<close>.
\<close>

theorem low_total_as_stated_counterexample:
  "lit 49.99999999999999 = Fin (7036874417766399 / 140737488355328)
   \<and> (150::real) + 7036874417766399 / 140737488355328 + 0 + 0 < 200
   \<and> total_of (Fin 150) (lit 49.99999999999999) (Fin 0) (Fin 0) = Fin 200
   \<and> evaluatePosture (reading (Fin 150) (lit 49.99999999999999) (Fin 0) (Fin 0)) = Inr ''poor''"
  by (simp add: evaluatePosture_reading total_of_def js_eval)

text \<open>
  C3, amended: for every reading of four numbers whose total as the source computes it
  (\<open>(((0 + a) + b) + c) + d\<close> in binary64) is strictly below 200, the classifier returns
  \<^verbatim>\<open>not_sitting\<close>, however the weight is spread over the four sensors.
\<close>

theorem low_total_not_sitting:
  "js_lt (total_of a b c d) (Fin 200) \<Longrightarrow> evaluatePosture (reading a b c d) = Inr ''not_sitting''"
  by (simp add: evaluatePosture_reading)

theorem low_total_not_sitting_witness:
  "js_lt (total_of (Fin 10) (Fin 20) (Fin 30) (Fin 40)) (Fin 200)
   \<and> evaluatePosture (reading (Fin 10) (Fin 20) (Fin 30) (Fin 40)) = Inr ''not_sitting''"
proof -
  have h: "js_lt (total_of (Fin 10) (Fin 20) (Fin 30) (Fin 40)) (Fin 200)"
    by (simp add: total_of_def)
  from h low_total_not_sitting [OF h] show ?thesis by blast
qed

text \<open>
  C1, as stated: with total at least 200 and \<open>readings[0] + readings[1]\<close> above 1.5 times
  \<open>readings[2] + readings[3]\<close> the label would be \<^verbatim>\<open>leaning_forward\<close>. The source pairs
  the indices the other way round (\<^verbatim>\<open>backWeight\<close> is 0 and 1, \<^verbatim>\<open>frontWeight\<close> is 2 and
  3) and its label is \<^verbatim>\<open>lean_forwarding\<close>: the reading 150, 150, 50, 50 meets the stated
  conditions and is classified \<^verbatim>\<open>good\<close>.
\<close>

theorem forward_lean_as_stated_counterexample:
  "(150::real) + 150 + 50 + 50 \<ge> 200 \<and> (150::real) + 150 > 1.5 * (50 + 50)
   \<and> evaluatePosture (reading (Fin 150) (Fin 150) (Fin 50) (Fin 50)) = Inr ''good''
   \<and> evaluatePosture (reading (Fin 150) (Fin 150) (Fin 50) (Fin 50)) \<noteq> Inr ''leaning_forward''"
  by (simp add: evaluatePosture_reading total_of_def js_eval)

text \<open>
  The forward-lean test is on the rounded sums and the rounded product: for the reading
  200, 0, 300, 8.881784197001252e-16 the sum of the last two numbers exceeds 300, which is
  1.5 times the sum of the first two, the computed \<^verbatim>\<open>frontWeight\<close> is 300, and the label
  is \<^verbatim>\<open>poor\<close>.
\<close>

lemma forward_test_is_rounded:
  "lit (8.881784197001252 / 10 ^ 16) = Fin (1 / 2 ^ 50)
   \<and> (300::real) + 1 / 2 ^ 50 > 1.5 * (200 + 0)
   \<and> js_add (Fin 300) (lit (8.881784197001252 / 10 ^ 16)) = Fin 300
   \<and> evaluatePosture (reading (Fin 200) (Fin 0) (Fin 300) (lit (8.881784197001252 / 10 ^ 16)))
       = Inr ''poor''"
  by (simp add: evaluatePosture_reading total_of_def js_eval)

text \<open>
  Infinite values are classified too: for the reading 1e400, 0, 0, 0 the total, the
  back weight and the difference are \<^verbatim>\<open>Infinity\<close>, no strict comparison holds, and the
  label is \<^verbatim>\<open>good\<close>.
\<close>

lemma overflowing_reading:
  "evaluatePosture (reading (lit (10 ^ 400)) (Fin 0) (Fin 0) (Fin 0)) = Inr ''good''"
  by (simp add: evaluatePosture_reading total_of_def js_eval round64_overflow signed_inf_def)

text \<open>
  C1, amended: for every reading of four numbers whose computed total is not below 200
  and whose \<open>frontWeight = readings[2] + readings[3]\<close> is strictly above
  \<open>backWeight * 1.5\<close>, with \<open>backWeight = readings[0] + readings[1]\<close> (sums and product as
  the source computes them, in binary64), the classifier returns \<^verbatim>\<open>lean_forwarding\<close>,
  whatever the left/right imbalance is: the forward-lean test comes before the imbalance
  test.
\<close>

theorem forward_lean_precedes_imbalance:
  "\<not> js_lt (total_of a b c d) (Fin 200)
   \<Longrightarrow> js_gt (js_add c d) (js_mul (js_add a b) (Fin 1.5))
   \<Longrightarrow> evaluatePosture (reading a b c d) = Inr ''lean_forwarding''"
  by (simp add: evaluatePosture_reading)

theorem forward_lean_precedes_imbalance_witness:
  "\<not> js_lt (total_of (Fin 10) (Fin 0) (Fin 300) (Fin 10)) (Fin 200)
   \<and> js_gt (js_add (Fin 300) (Fin 10)) (js_mul (js_add (Fin 10) (Fin 0)) (Fin 1.5))
   \<and> js_gt (js_abs (js_sub (js_add (Fin 10) (Fin 300)) (js_add (Fin 0) (Fin 10))))
            (js_mul (total_of (Fin 10) (Fin 0) (Fin 300) (Fin 10)) (lit 0.3))
   \<and> evaluatePosture (reading (Fin 10) (Fin 0) (Fin 300) (Fin 10)) = Inr ''lean_forwarding''"
proof -
  have t: "\<not> js_lt (total_of (Fin 10) (Fin 0) (Fin 300) (Fin 10)) (Fin 200)"
    by (simp add: total_of_def js_eval)
  have f: "js_gt (js_add (Fin 300) (Fin 10)) (js_mul (js_add (Fin 10) (Fin 0)) (Fin 1.5))"
    by (simp add: js_eval)
  have i: "js_gt (js_abs (js_sub (js_add (Fin 10) (Fin 300)) (js_add (Fin 0) (Fin 10))))
            (js_mul (total_of (Fin 10) (Fin 0) (Fin 300) (Fin 10)) (lit 0.3))"
    by (simp add: total_of_def js_eval)
  from t f i forward_lean_precedes_imbalance [OF t f] show ?thesis by blast
qed

text \<open>
  C4, as stated: with total at least 200 and \<open>readings[0] + readings[1]\<close> at most 1.5 times
  \<open>readings[2] + readings[3]\<close> the label would be \<^verbatim>\<open>poor\<close> or \<^verbatim>\<open>good\<close>. The reading
  50, 50, 150, 150 meets these conditions and is balanced left to right, and the source
  classifies it \<^verbatim>\<open>lean_forwarding\<close>.
\<close>

theorem imbalance_as_stated_counterexample:
  "(50::real) + 50 + 150 + 150 \<ge> 200 \<and> (50::real) + 50 \<le> 1.5 * (150 + 150)
   \<and> \<bar>((50::real) + 150) - (50 + 150)\<bar> \<le> 0.3 * (50 + 50 + 150 + 150)
   \<and> evaluatePosture (reading (Fin 50) (Fin 50) (Fin 150) (Fin 150)) = Inr ''lean_forwarding''
   \<and> evaluatePosture (reading (Fin 50) (Fin 50) (Fin 150) (Fin 150)) \<noteq> Inr ''good''
   \<and> evaluatePosture (reading (Fin 50) (Fin 50) (Fin 150) (Fin 150)) \<noteq> Inr ''poor''"
  by (simp add: evaluatePosture_reading total_of_def js_eval)

text \<open>
  The imbalance test is on rounded quantities too: for the reading 193.14285714285714,
  104, 0, 0 the difference of the two sides does not exceed 0.3 times the sum of the four
  numbers, the computed difference exceeds the computed product, and the label is
  \<^verbatim>\<open>poor\<close>.
\<close>

lemma imbalance_test_is_rounded:
  "lit 193.14285714285714 = Fin (6795610152014409 / 35184372088832)
   \<and> \<bar>((6795610152014409 / 35184372088832 :: real) + 0) - (104 + 0)\<bar>
        \<le> 0.3 * (6795610152014409 / 35184372088832 + 104 + 0 + 0)
   \<and> evaluatePosture (reading (lit 193.14285714285714) (Fin 104) (Fin 0) (Fin 0)) = Inr ''poor''"
  by (simp add: evaluatePosture_reading total_of_def js_eval)

text \<open>
  C4, amended: for every reading of four numbers whose computed total is not below 200
  and whose \<open>frontWeight = readings[2] + readings[3]\<close> is not above \<open>backWeight * 1.5\<close>,
  with \<open>backWeight = readings[0] + readings[1]\<close>, the classifier returns \<^verbatim>\<open>poor\<close> when
  \<open>|leftSide - rightSide| > total * 0.3\<close>, with \<open>leftSide = readings[0] + readings[2]\<close> and
  \<open>rightSide = readings[1] + readings[3]\<close>, and \<^verbatim>\<open>good\<close> otherwise, every sum, difference
  and product being the binary64 one the source computes; 100, 10, 100, 10 is \<^verbatim>\<open>poor\<close>
  and 100, 100, 100, 100 is \<^verbatim>\<open>good\<close>.
\<close>

theorem imbalance_poor_else_good:
  "(\<not> js_lt (total_of a b c d) (Fin 200)
      \<and> \<not> js_gt (js_add c d) (js_mul (js_add a b) (Fin 1.5)) \<longrightarrow>
      evaluatePosture (reading a b c d) =
        Inr (if js_gt (js_abs (js_sub (js_add a c) (js_add b d)))
                      (js_mul (total_of a b c d) (lit 0.3))
             then ''poor'' else ''good''))
   \<and> evaluatePosture (reading (Fin 100) (Fin 10) (Fin 100) (Fin 10)) = Inr ''poor''
   \<and> evaluatePosture (reading (Fin 100) (Fin 100) (Fin 100) (Fin 100)) = Inr ''good''"
proof -
  have "evaluatePosture (reading (Fin 100) (Fin 10) (Fin 100) (Fin 10)) = Inr ''poor''"
    by (simp add: evaluatePosture_reading total_of_def js_eval)
  moreover have "evaluatePosture (reading (Fin 100) (Fin 100) (Fin 100) (Fin 100)) = Inr ''good''"
    by (simp add: evaluatePosture_reading total_of_def js_eval)
  ultimately show ?thesis by (simp add: evaluatePosture_reading)
qed

theorem imbalance_poor_else_good_witness:
  "\<not> js_lt (total_of (Fin 100) (Fin 10) (Fin 100) (Fin 10)) (Fin 200)
   \<and> \<not> js_gt (js_add (Fin 100) (Fin 10)) (js_mul (js_add (Fin 100) (Fin 10)) (Fin 1.5))
   \<and> js_gt (js_abs (js_sub (js_add (Fin 100) (Fin 100)) (js_add (Fin 10) (Fin 10))))
            (js_mul (total_of (Fin 100) (Fin 10) (Fin 100) (Fin 10)) (lit 0.3))
   \<and> evaluatePosture (reading (Fin 100) (Fin 10) (Fin 100) (Fin 10)) = Inr ''poor''"
proof -
  have t: "\<not> js_lt (total_of (Fin 100) (Fin 10) (Fin 100) (Fin 10)) (Fin 200)"
    by (simp add: total_of_def js_eval)
  have f: "\<not> js_gt (js_add (Fin 100) (Fin 10)) (js_mul (js_add (Fin 100) (Fin 10)) (Fin 1.5))"
    by (simp add: js_eval)
  have i: "js_gt (js_abs (js_sub (js_add (Fin 100) (Fin 100)) (js_add (Fin 10) (Fin 10))))
            (js_mul (total_of (Fin 100) (Fin 10) (Fin 100) (Fin 10)) (lit 0.3))"
    by (simp add: total_of_def js_eval)
  from t f i imbalance_poor_else_good [of "Fin 100" "Fin 10" "Fin 100" "Fin 10"]
  show ?thesis by simp
qed

section \<open>Keypoint classifier: properties\<close>

text \<open>The lookup returns the first keypoint with the name, also when a later one has it too.\<close>

lemma find_part_Cons:
  "find_part p (k # ks) = (if part k = p then Some k else find_part p ks)"
  by (simp add: find_part_def)

lemma find_part_first_match:
  "\<forall>k' \<in> set xs. part k' \<noteq> p \<Longrightarrow> part k = p \<Longrightarrow> find_part p (xs @ k # ys) = Some k"
  by (induction xs) (simp_all add: find_part_Cons)

text \<open>The classifier once the three lookups are known, with the tests in the source's order.\<close>

lemma analyze_found:
  assumes "find_part ''nose'' kps = Some n"
    and "find_part ''leftShoulder'' kps = Some ls"
    and "find_part ''rightShoulder'' kps = Some rs"
  shows "analyzePoseNetPosture kps =
     (if js_lt (score n) (lit 0.3) \<or> js_lt (score ls) (lit 0.3) \<or> js_lt (score rs) (lit 0.3)
      then ''not_sitting''
      else if js_gt (js_abs (js_sub (pos_y (position ls)) (pos_y (position rs))))
                    (js_mul (js_abs (js_sub (pos_x (position ls)) (pos_x (position rs)))) (lit 0.2))
      then ''poor''
      else (case (find_part ''leftEar'' kps, find_part ''rightEar'' kps) of
              (Some le, Some re) \<Rightarrow>
                if js_gt (score le) (lit 0.5) \<and> js_gt (score re) (lit 0.5)
                   \<and> js_gt (js_abs (js_sub (pos_y (position le)) (pos_y (position re))))
                            (js_mul (js_abs (js_sub (pos_x (position le)) (pos_x (position re))))
                                    (lit 0.3))
                then ''poor'' else ''good''
            | _ \<Rightarrow> ''good''))"
  using assms
  by (simp add: analyzePoseNetPosture_def Let_def split: option.splits)

lemma ear_case_as_exists:
  "(case (l, r) of
      (Some le, Some re) \<Rightarrow>
        if js_gt (score le) (lit 0.5) \<and> js_gt (score re) (lit 0.5)
           \<and> js_gt (js_abs (js_sub (pos_y (position le)) (pos_y (position re))))
                    (js_mul (js_abs (js_sub (pos_x (position le)) (pos_x (position re))))
                            (lit 0.3))
        then ''poor'' else ''good''
    | _ \<Rightarrow> ''good'') =
   (if (\<exists>le re. l = Some le \<and> r = Some re
          \<and> js_gt (score le) (lit 0.5) \<and> js_gt (score re) (lit 0.5)
          \<and> js_gt (js_abs (js_sub (pos_y (position le)) (pos_y (position re))))
                   (js_mul (js_abs (js_sub (pos_x (position le)) (pos_x (position re))))
                           (lit 0.3)))
    then ''poor'' else ''good'')"
  by (cases l; cases r) auto

text \<open>The concrete keypoint sets: their lookups and their labels.\<close>

lemma aligned_pose_lookups:
  "find_part ''nose'' aligned_pose = Some (kp ''nose'' 0.9 0 0)"
  "find_part ''leftShoulder'' aligned_pose = Some (kp ''leftShoulder'' 0.9 100 200)"
  "find_part ''rightShoulder'' aligned_pose = Some (kp ''rightShoulder'' 0.9 200 200)"
  "find_part ''leftEar'' aligned_pose = Some (kp ''leftEar'' 0.9 90 100)"
  "find_part ''rightEar'' aligned_pose = Some (kp ''rightEar'' 0.9 210 100)"
  by (simp_all add: aligned_pose_def kp_def find_part_def)

lemma stacked_pose_lookups:
  "find_part ''nose'' stacked_pose = Some (kp ''nose'' 0.9 0 0)"
  "find_part ''leftShoulder'' stacked_pose = Some (kp ''leftShoulder'' 0.9 100 200)"
  "find_part ''rightShoulder'' stacked_pose = Some (kp ''rightShoulder'' 0.9 100 230)"
  by (simp_all add: stacked_pose_def kp_def find_part_def)

lemma coinciding_tilted_pose_lookups:
  "find_part ''nose'' coinciding_tilted_pose = Some (kp ''nose'' 0.9 0 0)"
  "find_part ''leftShoulder'' coinciding_tilted_pose = Some (kp ''leftShoulder'' 0.9 100 200)"
  "find_part ''rightShoulder'' coinciding_tilted_pose = Some (kp ''rightShoulder'' 0.9 100 200)"
  "find_part ''leftEar'' coinciding_tilted_pose = Some (kp ''leftEar'' 0.9 90 100)"
  "find_part ''rightEar'' coinciding_tilted_pose = Some (kp ''rightEar'' 0.9 210 200)"
  by (simp_all add: coinciding_tilted_pose_def kp_def find_part_def)

lemma borderline_ears_pose_lookups:
  "find_part ''nose'' borderline_ears_pose = Some (kp ''nose'' 0.9 0 0)"
  "find_part ''leftShoulder'' borderline_ears_pose = Some (kp ''leftShoulder'' 0.9 100 200)"
  "find_part ''rightShoulder'' borderline_ears_pose = Some (kp ''rightShoulder'' 0.9 200 200)"
  "find_part ''leftEar'' borderline_ears_pose = Some (kp ''leftEar'' 0.9 0 14.5)"
  "find_part ''rightEar'' borderline_ears_pose = Some (kp ''rightEar'' 0.9 48 0.1)"
  by (simp_all add: borderline_ears_pose_def kp_def find_part_def)

lemma analyze_aligned_pose: "analyzePoseNetPosture aligned_pose = ''good''"
  by (simp add: analyze_found [OF aligned_pose_lookups(1-3)] aligned_pose_lookups(4-5))
     (simp add: kp_def js_eval)

lemma analyze_stacked_pose: "analyzePoseNetPosture stacked_pose = ''poor''"
  by (simp add: analyze_found [OF stacked_pose_lookups(1-3)]) (simp add: kp_def js_eval)

lemma analyze_coinciding_tilted_pose: "analyzePoseNetPosture coinciding_tilted_pose = ''poor''"
  by (simp add: analyze_found [OF coinciding_tilted_pose_lookups(1-3)]
        coinciding_tilted_pose_lookups(4-5))
     (simp add: kp_def js_eval)

lemma analyze_borderline_ears_pose: "analyzePoseNetPosture borderline_ears_pose = ''poor''"
  by (simp add: analyze_found [OF borderline_ears_pose_lookups(1-3)]
        borderline_ears_pose_lookups(4-5))
     (simp add: kp_def js_eval)



text \<open>
  C6, as stated: after the confidence gate the label would be \<^verbatim>\<open>poor\<close> exactly when the
  shoulder difference exceeds 0.2 times the shoulder distance or, for a confident pair of
  ears, the ear difference exceeds 0.3 times the ear distance. The source compares the
  rounded difference with the rounded product: with level shoulders and ears at
  \<open>(0, 14.5)\<close> and \<open>(48, 0.1)\<close> the ear difference does not exceed \<open>48 * 0.3\<close>, the computed
  difference is above the computed product, and the label is \<^verbatim>\<open>poor\<close>.
\<close>

theorem ear_test_as_stated_counterexample:
  "find_part ''nose'' borderline_ears_pose = Some (kp ''nose'' 0.9 0 0)
   \<and> find_part ''leftShoulder'' borderline_ears_pose = Some (kp ''leftShoulder'' 0.9 100 200)
   \<and> find_part ''rightShoulder'' borderline_ears_pose = Some (kp ''rightShoulder'' 0.9 200 200)
   \<and> find_part ''leftEar'' borderline_ears_pose = Some (kp ''leftEar'' 0.9 0 14.5)
   \<and> find_part ''rightEar'' borderline_ears_pose = Some (kp ''rightEar'' 0.9 48 0.1)
   \<and> lit 0.9 = Fin (8106479329266893 / 9007199254740992)
   \<and> (0.5::real) < 8106479329266893 / 9007199254740992
   \<and> position (kp ''leftShoulder'' 0.9 100 200) = \<lparr>pos_x = Fin 100, pos_y = Fin 200\<rparr>
   \<and> position (kp ''rightShoulder'' 0.9 200 200) = \<lparr>pos_x = Fin 200, pos_y = Fin 200\<rparr>
   \<and> \<bar>(200::real) - 200\<bar> \<le> \<bar>100 - 200\<bar> * 0.2
   \<and> position (kp ''leftEar'' 0.9 0 14.5) = \<lparr>pos_x = Fin 0, pos_y = Fin (29 / 2)\<rparr>
   \<and> position (kp ''rightEar'' 0.9 48 0.1)
       = \<lparr>pos_x = Fin 48, pos_y = Fin (3602879701896397 / 36028797018963968)\<rparr>
   \<and> \<bar>(29 / 2 :: real) - 3602879701896397 / 36028797018963968\<bar> \<le> \<bar>0 - 48\<bar> * 0.3
   \<and> analyzePoseNetPosture borderline_ears_pose = ''poor''"
  by (simp add: borderline_ears_pose_lookups analyze_borderline_ears_pose)
     (simp add: kp_def js_eval)

text \<open>
  C6, amended: for a keypoint set that passes the confidence gate (the three parts found,
  none with a score below 0.3): the classifier returns \<^verbatim>\<open>poor\<close> if
  \<open>shoulderDiff > shoulderDistance * 0.2\<close>; otherwise \<^verbatim>\<open>poor\<close> if both ears are found
  with scores strictly above 0.5 and \<open>earDiff > earDistance * 0.3\<close>; otherwise
  \<^verbatim>\<open>good\<close>. The diffs are absolute differences of \<open>y\<close>, the distances of \<open>x\<close>, and every
  difference, product and comparison is the binary64 one the source computes.
\<close>

theorem confident_keypoints_verdict:
  assumes "find_part ''nose'' kps = Some n"
    and "find_part ''leftShoulder'' kps = Some ls"
    and "find_part ''rightShoulder'' kps = Some rs"
    and "\<not> js_lt (score n) (lit 0.3)" and "\<not> js_lt (score ls) (lit 0.3)"
    and "\<not> js_lt (score rs) (lit 0.3)"
  shows "analyzePoseNetPosture kps =
     (if js_gt (js_abs (js_sub (pos_y (position ls)) (pos_y (position rs))))
               (js_mul (js_abs (js_sub (pos_x (position ls)) (pos_x (position rs)))) (lit 0.2))
      then ''poor''
      else if (\<exists>le re. find_part ''leftEar'' kps = Some le \<and> find_part ''rightEar'' kps = Some re
                 \<and> js_gt (score le) (lit 0.5) \<and> js_gt (score re) (lit 0.5)
                 \<and> js_gt (js_abs (js_sub (pos_y (position le)) (pos_y (position re))))
                          (js_mul (js_abs (js_sub (pos_x (position le)) (pos_x (position re))))
                                  (lit 0.3)))
      then ''poor''
      else ''good'')"
proof -
  from assms(4-6)
  have "\<not> (js_lt (score n) (lit 0.3) \<or> js_lt (score ls) (lit 0.3) \<or> js_lt (score rs) (lit 0.3))"
    by auto
  then show ?thesis
    by (simp only: analyze_found [OF assms(1-3)] ear_case_as_exists if_False)
qed

theorem confident_keypoints_verdict_witness:
  "find_part ''nose'' aligned_pose = Some (kp ''nose'' 0.9 0 0)
   \<and> find_part ''leftShoulder'' aligned_pose = Some (kp ''leftShoulder'' 0.9 100 200)
   \<and> find_part ''rightShoulder'' aligned_pose = Some (kp ''rightShoulder'' 0.9 200 200)
   \<and> \<not> js_lt (score (kp ''nose'' 0.9 0 0)) (lit 0.3)
   \<and> \<not> js_lt (score (kp ''leftShoulder'' 0.9 100 200)) (lit 0.3)
   \<and> \<not> js_lt (score (kp ''rightShoulder'' 0.9 200 200)) (lit 0.3)
   \<and> analyzePoseNetPosture aligned_pose = ''good''"
proof -
  note f = aligned_pose_lookups(1-3)
  have s: "\<not> js_lt (score (kp ''nose'' 0.9 0 0)) (lit 0.3)"
    "\<not> js_lt (score (kp ''leftShoulder'' 0.9 100 200)) (lit 0.3)"
    "\<not> js_lt (score (kp ''rightShoulder'' 0.9 200 200)) (lit 0.3)"
    by (simp_all add: kp_def js_eval)
  have "analyzePoseNetPosture aligned_pose = ''good''"
    using confident_keypoints_verdict [OF f s]
    by (simp add: aligned_pose_lookups(4-5)) (simp add: kp_def js_eval)
  with f s show ?thesis by blast
qed

text \<open>
  C10, as stated: with coinciding shoulder \<open>x\<close> the classifier would return \<^verbatim>\<open>poor\<close>
  exactly when \<open>shoulderDiff > 0\<close>. With both shoulders at the same point and tilted ears,
  \<open>shoulderDiff\<close> is 0 and the label is \<^verbatim>\<open>poor\<close>, from the ear test.
\<close>

theorem coinciding_shoulders_as_stated_counterexample:
  "find_part ''nose'' coinciding_tilted_pose = Some (kp ''nose'' 0.9 0 0)
   \<and> find_part ''leftShoulder'' coinciding_tilted_pose = Some (kp ''leftShoulder'' 0.9 100 200)
   \<and> find_part ''rightShoulder'' coinciding_tilted_pose = Some (kp ''rightShoulder'' 0.9 100 200)
   \<and> \<not> js_lt (score (kp ''nose'' 0.9 0 0)) (lit 0.3)
   \<and> \<not> js_lt (score (kp ''leftShoulder'' 0.9 100 200)) (lit 0.3)
   \<and> \<not> js_lt (score (kp ''rightShoulder'' 0.9 100 200)) (lit 0.3)
   \<and> js_abs (js_sub (pos_x (position (kp ''leftShoulder'' 0.9 100 200)))
                     (pos_x (position (kp ''rightShoulder'' 0.9 100 200)))) = Fin 0
   \<and> js_abs (js_sub (pos_y (position (kp ''leftShoulder'' 0.9 100 200)))
                     (pos_y (position (kp ''rightShoulder'' 0.9 100 200)))) = Fin 0
   \<and> \<not> js_gt (Fin 0) (Fin 0)
   \<and> analyzePoseNetPosture coinciding_tilted_pose = ''poor''"
  by (simp add: coinciding_tilted_pose_lookups analyze_coinciding_tilted_pose)
     (simp add: kp_def js_eval)

text \<open>
  C10, amended: for a keypoint set that passes the confidence gate and whose two shoulders
  have the same finite \<open>x\<close>: \<open>shoulderDistance\<close> is 0; the shoulder test is the product
  comparison \<open>shoulderDiff > shoulderDistance * 0.2\<close>, with no division, and it holds
  exactly when \<open>shoulderDiff > 0\<close>; the classifier then returns \<^verbatim>\<open>poor\<close>, and otherwise it
  goes on to the ear test and returns its outcome (\<^verbatim>\<open>poor\<close> for a confident, tilted pair
  of ears, \<^verbatim>\<open>good\<close> if not). In every case the result is one of the two labels.
\<close>

theorem coinciding_shoulders_verdict:
  assumes "find_part ''nose'' kps = Some n"
    and "find_part ''leftShoulder'' kps = Some ls"
    and "find_part ''rightShoulder'' kps = Some rs"
    and "\<not> js_lt (score n) (lit 0.3)" and "\<not> js_lt (score ls) (lit 0.3)"
    and "\<not> js_lt (score rs) (lit 0.3)"
    and "pos_x (position ls) = Fin x" and "pos_x (position rs) = Fin x"
  shows "js_abs (js_sub (pos_x (position ls)) (pos_x (position rs))) = Fin 0
     \<and> js_gt (js_abs (js_sub (pos_y (position ls)) (pos_y (position rs))))
              (js_mul (js_abs (js_sub (pos_x (position ls)) (pos_x (position rs)))) (lit 0.2))
         = js_gt (js_abs (js_sub (pos_y (position ls)) (pos_y (position rs)))) (Fin 0)
     \<and> analyzePoseNetPosture kps \<in> {''poor'', ''good''}
     \<and> analyzePoseNetPosture kps =
         (if js_gt (js_abs (js_sub (pos_y (position ls)) (pos_y (position rs)))) (Fin 0)
          then ''poor''
          else if (\<exists>le re. find_part ''leftEar'' kps = Some le
                     \<and> find_part ''rightEar'' kps = Some re
                     \<and> js_gt (score le) (lit 0.5) \<and> js_gt (score re) (lit 0.5)
                     \<and> js_gt (js_abs (js_sub (pos_y (position le)) (pos_y (position re))))
                              (js_mul (js_abs (js_sub (pos_x (position le)) (pos_x (position re))))
                                      (lit 0.3)))
          then ''poor''
          else ''good'')"
proof -
  from assms(4-6)
  have g: "\<not> (js_lt (score n) (lit 0.3) \<or> js_lt (score ls) (lit 0.3) \<or> js_lt (score rs) (lit 0.3))"
    by auto
  have d: "js_abs (js_sub (pos_x (position ls)) (pos_x (position rs))) = Fin 0"
    by (simp add: assms(7,8) js_sub_def)
  have z: "js_mul (Fin 0) (lit 0.2) = Fin 0"
    by (simp add: lit_0_2)
  have t: "js_gt (js_abs (js_sub (pos_y (position ls)) (pos_y (position rs))))
              (js_mul (js_abs (js_sub (pos_x (position ls)) (pos_x (position rs)))) (lit 0.2))
         = js_gt (js_abs (js_sub (pos_y (position ls)) (pos_y (position rs)))) (Fin 0)"
    by (simp only: d z)
  have r: "analyzePoseNetPosture kps =
         (if js_gt (js_abs (js_sub (pos_y (position ls)) (pos_y (position rs)))) (Fin 0)
          then ''poor''
          else if (\<exists>le re. find_part ''leftEar'' kps = Some le
                     \<and> find_part ''rightEar'' kps = Some re
                     \<and> js_gt (score le) (lit 0.5) \<and> js_gt (score re) (lit 0.5)
                     \<and> js_gt (js_abs (js_sub (pos_y (position le)) (pos_y (position re))))
                              (js_mul (js_abs (js_sub (pos_x (position le)) (pos_x (position re))))
                                      (lit 0.3)))
          then ''poor''
          else ''good'')"
    using g by (simp only: analyze_found [OF assms(1-3)] ear_case_as_exists if_False t)
  have m: "analyzePoseNetPosture kps \<in> {''poor'', ''good''}"
    by (subst r) simp
  from d t m r show ?thesis by blast
qed

theorem coinciding_shoulders_verdict_witness:
  "find_part ''nose'' stacked_pose = Some (kp ''nose'' 0.9 0 0)
   \<and> find_part ''leftShoulder'' stacked_pose = Some (kp ''leftShoulder'' 0.9 100 200)
   \<and> find_part ''rightShoulder'' stacked_pose = Some (kp ''rightShoulder'' 0.9 100 230)
   \<and> \<not> js_lt (score (kp ''nose'' 0.9 0 0)) (lit 0.3)
   \<and> \<not> js_lt (score (kp ''leftShoulder'' 0.9 100 200)) (lit 0.3)
   \<and> \<not> js_lt (score (kp ''rightShoulder'' 0.9 100 230)) (lit 0.3)
   \<and> pos_x (position (kp ''leftShoulder'' 0.9 100 200)) = Fin 100
   \<and> pos_x (position (kp ''rightShoulder'' 0.9 100 230)) = Fin 100
   \<and> js_gt (js_abs (js_sub (pos_y (position (kp ''leftShoulder'' 0.9 100 200)))
                            (pos_y (position (kp ''rightShoulder'' 0.9 100 230))))) (Fin 0)
   \<and> analyzePoseNetPosture stacked_pose = ''poor''"
proof -
  note f = stacked_pose_lookups
  have s: "\<not> js_lt (score (kp ''nose'' 0.9 0 0)) (lit 0.3)"
    "\<not> js_lt (score (kp ''leftShoulder'' 0.9 100 200)) (lit 0.3)"
    "\<not> js_lt (score (kp ''rightShoulder'' 0.9 100 230)) (lit 0.3)"
    by (simp_all add: kp_def js_eval)
  have x: "pos_x (position (kp ''leftShoulder'' 0.9 100 200)) = Fin 100"
    "pos_x (position (kp ''rightShoulder'' 0.9 100 230)) = Fin 100"
    by (simp_all add: kp_def js_eval)
  have y: "js_gt (js_abs (js_sub (pos_y (position (kp ''leftShoulder'' 0.9 100 200)))
                            (pos_y (position (kp ''rightShoulder'' 0.9 100 230))))) (Fin 0)"
    by (simp add: kp_def js_eval)
  have "analyzePoseNetPosture stacked_pose = ''poor''"
    using coinciding_shoulders_verdict [OF f s x] y by simp
  with f s x y show ?thesis by blast
qed

section \<open>Chair registry: properties\<close>

lemma register_member: "i \<in> set ids \<Longrightarrow> registerChairId i ids = ids"
  by (simp add: registerChairId_def)

lemma register_twice: "registerChairId i (registerChairId i ids) = registerChairId i ids"
  by (simp add: registerChairId_def)

lemma register_distinct: "distinct ids \<Longrightarrow> distinct (registerChairId i ids)"
  by (simp add: registerChairId_def)

lemma post_chair_registry:
  "registeredChairIds (snd (post_chair ok req st)) =
     registerChairId (Some (or_unknown (body_id req))) (registeredChairIds st)"
  by (simp add: post_chair_def Let_def split: sum.splits)

lemma post_posenet_registry:
  "registeredChairIds (snd (post_posenet ok req st)) =
     registerChairId (body_chairId req) (registeredChairIds st)"
  by (simp add: post_posenet_def Let_def)

lemma handle_distinct:
  "distinct (registeredChairIds st) \<Longrightarrow> distinct (registeredChairIds (handle r st))"
  by (cases r) (simp_all add: post_chair_registry post_posenet_registry register_distinct)

lemma foldl_handle_distinct:
  "distinct (registeredChairIds st) \<Longrightarrow>
   distinct (registeredChairIds (foldl (\<lambda>st r. handle r st) st reqs))"
  by (induction reqs arbitrary: st) (simp_all add: handle_distinct)

text \<open>
  C9. Registration is idempotent: registering an identifier that is already a member
  returns the registry as it was (same list, hence same members and same size), and
  registering twice is registering once; the function has no error result. In every state
  the server reaches from its start, through any sequence of requests, no identifier
  occurs twice in the registry.
\<close>

theorem registration_idempotent:
  "(i \<in> set ids \<longrightarrow>
      registerChairId i ids = ids \<and> set (registerChairId i ids) = set ids
      \<and> length (registerChairId i ids) = length ids)
   \<and> registerChairId i (registerChairId i ids) = registerChairId i ids
   \<and> distinct (registeredChairIds (run reqs))"
  by (simp add: register_member register_twice run_def foldl_handle_distinct initial_state_def)

theorem registration_idempotent_witness:
  "Some ''test-chair-no-sensors''
      \<in> set (registeredChairIds (run [PostChair True no_sensors_request]))
   \<and> registerChairId (Some ''test-chair-no-sensors'')
        (registeredChairIds (run [PostChair True no_sensors_request]))
      = registeredChairIds (run [PostChair True no_sensors_request])
   \<and> registeredChairIds (run [PostChair True no_sensors_request, PostChair True no_sensors_request])
      = [Some ''test-chair-no-sensors'']
   \<and> distinct (registeredChairIds
        (run [PostChair True no_sensors_request, PostChair True no_sensors_request]))"
proof -
  have m: "Some ''test-chair-no-sensors''
      \<in> set (registeredChairIds (run [PostChair True no_sensors_request]))"
    by (simp add: run_def initial_state_def post_chair_def no_sensors_request_def
        registerChairId_def)
  have l: "registeredChairIds
             (run [PostChair True no_sensors_request, PostChair True no_sensors_request])
           = [Some ''test-chair-no-sensors'']"
    by (simp add: run_def initial_state_def post_chair_def no_sensors_request_def
        registerChairId_def)
  from m l show ?thesis
    using registration_idempotent
      [where ids = "registeredChairIds (run [PostChair True no_sensors_request])"
         and i = "Some ''test-chair-no-sensors''"
         and reqs = "[PostChair True no_sensors_request, PostChair True no_sensors_request]"]
    by blast
qed

section \<open>Ingestion routes: properties\<close>

lemma isArray_truthy: "isArray f \<Longrightarrow> truthy f"
  by (cases f) simp_all




text \<open>
  C2, as stated: a \<^verbatim>\<open>/chair\<close> request without an array of sensors would be rejected
  with no state change at all. The route calls \<^verbatim>\<open>registerChairId\<close> before it validates:
  the request \<^verbatim>\<open>{ id: 'test-chair-no-sensors' }\<close> is answered 400 and its identifier is
  in the registry afterwards.
\<close>

theorem invalid_sensors_as_stated_counterexample:
  "\<not> isArray (body_sensors no_sensors_request)
   \<and> fst (post_chair True no_sensors_request initial_state)
       = Response 400 (Error ''Invalid sensor data format'')
   \<and> registeredChairIds initial_state = []
   \<and> registeredChairIds (snd (post_chair True no_sensors_request initial_state))
       = [Some ''test-chair-no-sensors'']"
  by (simp add: post_chair_def no_sensors_request_def initial_state_def registerChairId_def)

text \<open>
  C2, amended: every \<^verbatim>\<open>/chair\<close> request whose \<^verbatim>\<open>sensors\<close> field is missing or not an
  array is rejected with status 400 and the message \<^verbatim>\<open>Invalid sensor data format\<close>; no
  record is persisted and no event is broadcast; the chair identifier (\<^verbatim>\<open>unknown\<close> when
  absent) is registered, since registration precedes the validation.
\<close>

theorem invalid_sensors_rejected:
  "\<not> isArray (body_sensors req) \<Longrightarrow>
   fst (post_chair ok req st) = Response 400 (Error ''Invalid sensor data format'')
   \<and> stored (snd (post_chair ok req st)) = stored st
   \<and> emitted (snd (post_chair ok req st)) = emitted st
   \<and> registeredChairIds (snd (post_chair ok req st))
       = registerChairId (Some (or_unknown (body_id req))) (registeredChairIds st)"
  by (simp add: post_chair_def Let_def)

theorem invalid_sensors_rejected_witness:
  "\<not> isArray (body_sensors no_sensors_request)
   \<and> fst (post_chair True no_sensors_request initial_state)
       = Response 400 (Error ''Invalid sensor data format'')
   \<and> stored (snd (post_chair True no_sensors_request initial_state)) = []
   \<and> emitted (snd (post_chair True no_sensors_request initial_state)) = []"
proof -
  have h: "\<not> isArray (body_sensors no_sensors_request)"
    by (simp add: no_sensors_request_def)
  show ?thesis
    using h invalid_sensors_rejected [OF h, of True initial_state]
    by (simp add: initial_state_def)
qed




text \<open>
  The pressure route defaults an absent identifier: the record it stores carries
  \<^verbatim>\<open>unknown\<close>.
\<close>

lemma chair_absent_id_defaulted:
  "body_id req = None \<Longrightarrow> isArray (body_sensors req) \<Longrightarrow>
   evaluatePosture (elements (body_sensors req)) = Inr label \<Longrightarrow>
   map chairId (stored (snd (post_chair True req st)))
     = map chairId (stored st) @ [Some ''unknown'']"
  by (simp add: post_chair_def Let_def isArray_truthy)

text \<open>
  C8: on both routes an absent chair identifier is stored as \<^verbatim>\<open>unknown\<close>. The pose route
  has no default: for a \<^verbatim>\<open>/posenet\<close> body with keypoints and no \<^verbatim>\<open>chairId\<close>, the
  answer is 200, the stored record has no chair identifier, and \<^verbatim>\<open>undefined\<close> is what
  the registry receives.
\<close>

theorem posenet_absent_chairId_not_defaulted:
  "fst (post_posenet True anonymous_pose_request initial_state)
     = Response 200 (Success ''PoseNet data received successfully'' ''good'')
   \<and> map chairId (stored (snd (post_posenet True anonymous_pose_request initial_state))) = [None]
   \<and> registeredChairIds (snd (post_posenet True anonymous_pose_request initial_state)) = [None]"
  by (simp add: post_posenet_def anonymous_pose_request_def initial_state_def Let_def
      registerChairId_def analyze_aligned_pose)

text \<open>
  The request above takes the route's accepting branch (its keypoints are an array, so the
  validation passes), carries no identifier, and what is stored is not \<^verbatim>\<open>unknown\<close>.
\<close>

theorem posenet_absent_chairId_not_defaulted_witness:
  "body_chairId anonymous_pose_request = None
   \<and> truthy (body_keypoints anonymous_pose_request)
   \<and> isArray (body_keypoints anonymous_pose_request)
   \<and> map chairId (stored (snd (post_posenet True anonymous_pose_request initial_state)))
       \<noteq> [Some ''unknown'']"
  using posenet_absent_chairId_not_defaulted by (simp add: anonymous_pose_request_def)

end
